theory Spec2Isabelle
  imports Complex_Main "HOL-Library.Sublist"
begin

section \<open>Python values and strings\<close>

text \<open>
  The application is one Python script, \<^verbatim>\<open>app.py\<close>. A Python \<^verbatim>\<open>str\<close> is modelled by
  its UTF-8 encoding, a \<^typ>\<open>string\<close> of bytes: concatenation, equality and the substring
  test are the same on the encoding as on the code points. Where the script works character
  by character the bytes are grouped into code points (\<open>utf8_chars\<close> below).
  \<^verbatim>\<open>str.lower\<close> is library code covering all of Unicode; the scorer takes it as a
  parameter. On a text of ASCII characters it is \<open>ascii_lower\<close>, which maps the letters A
  to Z and leaves every other character unchanged.
\<close>

definition lower_char :: "char \<Rightarrow> char" where
  "lower_char c =
     (case map_of (zip ''ABCDEFGHIJKLMNOPQRSTUVWXYZ'' ''abcdefghijklmnopqrstuvwxyz'') c of
        Some d \<Rightarrow> d
      | None \<Rightarrow> c)"

definition ascii_lower :: "string \<Rightarrow> string" where
  "ascii_lower s = map lower_char s"


text \<open>
  The code points of a string: a byte \<open>10xxxxxx\<close> continues the code point begun before
  it.
\<close>

definition is_continuation :: "char \<Rightarrow> bool" where
  "is_continuation c = (digit7 c \<and> \<not> digit6 c)"

fun utf8_chars :: "string \<Rightarrow> string list" where
  "utf8_chars [] = []"
| "utf8_chars [c] = [[c]]"
| "utf8_chars (c # d # s) =
     (if is_continuation d
      then (case utf8_chars (d # s) of [] \<Rightarrow> [[c]] | g # gs \<Rightarrow> (c # g) # gs)
      else [c] # utf8_chars (d # s))"

text \<open>\<^verbatim>\<open>w in s\<close> on two strings: \<open>w\<close> occurs in \<open>s\<close> as a contiguous run.\<close>

fun starts_with :: "string \<Rightarrow> string \<Rightarrow> bool" where
  "starts_with [] s = True"
| "starts_with (x # w) [] = False"
| "starts_with (x # w) (c # s) = (x = c \<and> starts_with w s)"

fun str_in :: "string \<Rightarrow> string \<Rightarrow> bool" where
  "str_in w [] = (w = [])"
| "str_in w (c # s) = (starts_with w (c # s) \<or> str_in w s)"

text \<open>\<^verbatim>\<open>sep.join(xs)\<close> on a list of strings.\<close>

fun join :: "string \<Rightarrow> string list \<Rightarrow> string" where
  "join sep [] = []"
| "join sep [x] = x"
| "join sep (x # y # ys) = x @ sep @ join sep (y # ys)"

text \<open>\<^verbatim>\<open>str(n)\<close> on an integer, as an f-string formats it.\<close>

fun digits :: "nat \<Rightarrow> string" where
  "digits n =
     (if n < 10 then [''0123456789'' ! n]
      else digits (n div 10) @ [''0123456789'' ! (n mod 10)])"

definition str_int :: "int \<Rightarrow> string" where
  "str_int i = (if i < 0 then ''-'' @ digits (nat (- i)) else digits (nat i))"

text \<open>
  The values \<^verbatim>\<open>json.loads\<close> can return. A finite float is the rational it denotes
  (\<open>-0.0\<close> denotes \<open>0\<close>); a \<^verbatim>\<open>dict\<close> is the list of its items in insertion order.
\<close>

datatype pyfloat = Finite rat | PosInf | NegInf | NaN

datatype json =
    JNull
  | JBool bool
  | JInt int
  | JFloat pyfloat
  | JStr string
  | JArr "json list"
  | JObj "(string \<times> json) list"

datatype py_error = AttributeError | TypeError | KeyError

text \<open>Truth value of a Python value, as \<^verbatim>\<open>if result:\<close> tests it.\<close>

fun truthy :: "json \<Rightarrow> bool" where
  "truthy JNull = False"
| "truthy (JBool b) = b"
| "truthy (JInt i) = (i \<noteq> 0)"
| "truthy (JFloat f) = (f \<noteq> Finite 0)"
| "truthy (JStr s) = (s \<noteq> [])"
| "truthy (JArr xs) = (xs \<noteq> [])"
| "truthy (JObj kvs) = (kvs \<noteq> [])"

text \<open>
  The items a \<^verbatim>\<open>for\<close> loop (or \<^verbatim>\<open>join\<close>) visits: the elements of a list, the
  characters of a string, the keys of a dict; \<open>None\<close> stands for the \<^verbatim>\<open>TypeError\<close> of
  a value that is not iterable.
\<close>

fun py_iter :: "json \<Rightarrow> json list option" where
  "py_iter (JArr xs) = Some xs"
| "py_iter (JStr s) = Some (map JStr (utf8_chars s))"
| "py_iter (JObj kvs) = Some (map (\<lambda>kv. JStr (fst kv)) kvs)"
| "py_iter JNull = None"
| "py_iter (JBool b) = None"
| "py_iter (JInt i) = None"
| "py_iter (JFloat f) = None"

fun is_str :: "json \<Rightarrow> bool" where
  "is_str (JStr s) = True"
| "is_str v = False"

fun str_of :: "json \<Rightarrow> string" where
  "str_of (JStr s) = s"
| "str_of v = []"

text \<open>\<^verbatim>\<open>sep.join(v)\<close>: every item must be a string.\<close>

definition str_join :: "string \<Rightarrow> json \<Rightarrow> py_error + string" where
  "str_join sep v =
     (case py_iter v of
        None \<Rightarrow> Inl TypeError
      | Some xs \<Rightarrow> if list_all is_str xs then Inr (join sep (map str_of xs)) else Inl TypeError)"

subsection \<open>Dictionaries\<close>

text \<open>\<^verbatim>\<open>d.get(k, default)\<close>, \<^verbatim>\<open>d[k]\<close> and \<^verbatim>\<open>d[k] = v\<close> on a dict held as its item list.\<close>

definition dict_get :: "('k \<times> 'v) list \<Rightarrow> 'k \<Rightarrow> 'v \<Rightarrow> 'v" where
  "dict_get d k dflt = (case map_of d k of Some v \<Rightarrow> v | None \<Rightarrow> dflt)"

definition dict_item :: "('k \<times> 'v) list \<Rightarrow> 'k \<Rightarrow> py_error + 'v" where
  "dict_item d k = (case map_of d k of Some v \<Rightarrow> Inr v | None \<Rightarrow> Inl KeyError)"

fun dict_set :: "('k \<times> 'v) list \<Rightarrow> 'k \<Rightarrow> 'v \<Rightarrow> ('k \<times> 'v) list" where
  "dict_set [] k v = [(k, v)]"
| "dict_set (p # d) k v = (if fst p = k then (k, v) # d else p # dict_set d k v)"

section \<open>Prompt builder\<close>

text \<open>
  \<^verbatim>\<open>make_prompt(resume_text, job_description=None, user_question=None, mode="analyze")\<close>.
  The two optional arguments are \<open>None\<close> or a string; \<^verbatim>\<open>if job_description:\<close> holds for a
  non-empty string only. \<open>mode_instructions\<close> is the text the \<^verbatim>\<open>if\<close>/\<^verbatim>\<open>elif\<close> chain on
  \<open>mode\<close> appends to \<open>base\<close>: nothing for a mode it does not name.
\<close>

definition mode_instructions :: "string \<Rightarrow> string" where
  "mode_instructions mode =
     (if mode = ''analyze'' then
        ''Analyze the resume and return ONLY valid JSON (no markdown, no explanation, no code block) with keys: assessment, strengths, weaknesses, rewritten_bullets, job_titles, freelance_ideas, keywords, rewritten_resume, bullet_resume, email_summary.\<newline>''
      else if mode = ''cover_letter'' then
        ''Generate a tailored cover letter based on the resume and job description. Use a professional tone.\<newline>''
      else if mode = ''linkedin'' then
        ''Suggest LinkedIn headline, summary, and experience section updates based on the resume.\<newline>''
      else if mode = ''interview'' then
        ''Generate 5 personalized interview questions and suggested answers based on the resume and job description.\<newline>''
      else [])"

definition make_prompt :: "string \<Rightarrow> string option \<Rightarrow> string option \<Rightarrow> string \<Rightarrow> string" where
  "make_prompt resume_text job_description user_question mode =
     (let base0 = ''You are an expert career assistant. Mode: '' @ mode @
                  ''.\<newline>Please keep your response as concise as possible.'';
          base1 = base0 @ mode_instructions mode;
          base2 =
            (case job_description of
               None \<Rightarrow> base1
             | Some jd \<Rightarrow>
                 if jd \<noteq> [] then base1 @ ''Job Description:\<newline>'' @ jd @ ''\<newline>'' else base1);
          base3 =
            (case user_question of
               None \<Rightarrow> base2
             | Some uq \<Rightarrow>
                 if uq \<noteq> [] then base2 @ ''User Question:\<newline>'' @ uq @ ''\<newline>'' else base2)
      in base3 @ ''Resume Text:\<newline>'' @ resume_text)"

section \<open>Resume scoring\<close>

text \<open>
  \<^verbatim>\<open>resume_score(text)\<close> builds a dict with the three category scores and then stores
  the sum of its values under \<^verbatim>\<open>'Total'\<close>. \<open>py_lower\<close> is \<^verbatim>\<open>str.lower\<close>.
\<close>

definition resume_score :: "(string \<Rightarrow> string) \<Rightarrow> string \<Rightarrow> (string \<times> int) list" where
  "resume_score py_lower text =
     (let score =
            [(''Contact'',
                if list_ex (\<lambda>word. str_in word (py_lower text)) [''email'', ''phone'', ''contact'']
                then 10 else 0),
             (''Skills'', if str_in ''skills'' (py_lower text) then 10 else 0),
             (''Experience'', if str_in ''experience'' (py_lower text) then 10 else 0)]
      in dict_set score ''Total'' (sum_list (map snd score)))"

section \<open>Generation requests and the effects of a handler\<close>

text \<open>
  One call of \<^verbatim>\<open>client.chat.completions.create\<close>. The keyword arguments are the fields;
  \<open>temperature = None\<close> is a call that passes no temperature. \<open>messages\<close> lists the
  (role, content) pairs.
\<close>

record request =
  model :: string
  messages :: "(string \<times> string) list"
  temperature :: "rat option"
  max_tokens :: int

text \<open>
  What the \<^verbatim>\<open>try\<close> block sees of the call: \<open>Ok content\<close> is the text of
  \<^verbatim>\<open>response.choices[0].message.content\<close>, \<open>Err msg\<close> an exception (a subclass of
  \<^verbatim>\<open>Exception\<close>) raised on the way, with \<open>msg\<close> its \<^verbatim>\<open>str\<close>.
\<close>

datatype outcome = Ok string | Err string

text \<open>
  The observable effects of a handler, in the order the script performs them. Each
  constructor records one call and its arguments: \<open>StWriteBullet v\<close> is
  \<^verbatim>\<open>st.write(f"- {v}")\<close>, \<open>StChatMarkdown r c\<close> is \<^verbatim>\<open>st.markdown(c)\<close> inside
  \<^verbatim>\<open>st.chat_message(r)\<close>. Spinners are not recorded.
\<close>

datatype effect =
    ApiCall request
  | StError string
  | StSubheader string
  | StWrite json
  | StWriteBullet json
  | StTextArea string json
  | StTextInput string string
  | StButton string
  | StSuccess string
  | StMetric string string
  | StChatMarkdown string string

text \<open>
  A block of statements: the effects it performed, and either the exception that ended it
  or its value.
\<close>

type_synonym 'a script = "effect list \<times> (py_error + 'a)"

definition emit :: "effect \<Rightarrow> unit script" where
  "emit e = ([e], Inr ())"

fun run :: "unit script list \<Rightarrow> unit script" where
  "run [] = ([], Inr ())"
| "run (m # ms) =
     (case m of
        (es, Inl x) \<Rightarrow> (es, Inl x)
      | (es, Inr u) \<Rightarrow> (case run ms of (es', r) \<Rightarrow> (es @ es', r)))"

definition for_each :: "json \<Rightarrow> (json \<Rightarrow> unit script) \<Rightarrow> unit script" where
  "for_each v body =
     (case py_iter v of
        None \<Rightarrow> ([], Inl TypeError)
      | Some xs \<Rightarrow> run (map body xs))"

definition write_joined :: "string \<Rightarrow> json \<Rightarrow> unit script" where
  "write_joined sep v =
     (case str_join sep v of
        Inl x \<Rightarrow> ([], Inl x)
      | Inr s \<Rightarrow> emit (StWrite (JStr s)))"

section \<open>Session state\<close>

text \<open>
  \<^verbatim>\<open>st.session_state\<close>: \<open>versions\<close> is created empty at the top of every run of the
  script; \<open>chat_history\<close> is absent (\<open>None\<close>) until the chat section or the Clear Chat
  button assigns it.
\<close>

record chat_turn =
  role :: string
  content :: string

record session_state =
  versions :: "(string \<times> json) list"
  chat_history :: "chat_turn list option"

definition new_session :: session_state where
  "new_session = \<lparr>versions = [], chat_history = None\<rparr>"

text \<open>\<^verbatim>\<open>st.session_state.versions[version_name] = rewritten_resume\<close>\<close>

definition save_version :: "string \<Rightarrow> json \<Rightarrow> session_state \<Rightarrow> session_state" where
  "save_version version_name rewritten_resume s =
     s\<lparr>versions := dict_set (versions s) version_name rewritten_resume\<rparr>"

text \<open>\<^verbatim>\<open>if st.button("Clear Chat"): st.session_state.chat_history = []\<close>\<close>

definition clear_chat :: "session_state \<Rightarrow> session_state" where
  "clear_chat s = s\<lparr>chat_history := Some []\<rparr>"

section \<open>Scorecard rendering\<close>

text \<open>The four \<^verbatim>\<open>metric\<close> calls of the upload branch.\<close>

definition scorecard_metrics :: "(string \<times> int) list \<Rightarrow> py_error + effect list" where
  "scorecard_metrics scores =
     (case (dict_item scores ''Total'', dict_item scores ''Contact'',
            dict_item scores ''Skills'', dict_item scores ''Experience'') of
        (Inr t, Inr c, Inr k, Inr e) \<Rightarrow>
          Inr [StMetric ''Total'' (str_int t @ ''/100''),
               StMetric ''Contact'' (str_int c @ ''/20''),
               StMetric ''Skills'' (str_int k @ ''/20''),
               StMetric ''Experience'' (str_int e @ ''/25'')]
      | _ \<Rightarrow> Inl KeyError)"

section \<open>The Analyze and Rewrite handler\<close>

text \<open>
  The \<^verbatim>\<open>try\<close> block: the request, then \<^verbatim>\<open>json.loads\<close> on the returned text.
  \<^verbatim>\<open>json.loads\<close> is library code; it is the parameter \<open>loads\<close>, with \<open>Inl msg\<close> for a
  \<^verbatim>\<open>JSONDecodeError\<close> whose \<^verbatim>\<open>str\<close> is \<open>msg\<close>. Either exception is caught by
  \<^verbatim>\<open>except Exception as e\<close>, reported with \<^verbatim>\<open>st.error\<close>, and \<open>result\<close> becomes the
  empty dict.
\<close>

definition analyze_request :: "string \<Rightarrow> request" where
  "analyze_request prompt =
     \<lparr>model = ''gpt-3.5-turbo'', messages = [(''user'', prompt)],
      temperature = Some (2 / 10), max_tokens = 512\<rparr>"

definition analyze_fetch ::
  "(request \<Rightarrow> outcome) \<Rightarrow> (string \<Rightarrow> string + json) \<Rightarrow> string \<Rightarrow> effect list \<times> json" where
  "analyze_fetch client loads prompt =
     (case client (analyze_request prompt) of
        Err e \<Rightarrow>
          ([ApiCall (analyze_request prompt), StError (''OpenAI API call failed: '' @ e)], JObj [])
      | Ok raw \<Rightarrow>
          (case loads raw of
             Inl e \<Rightarrow>
               ([ApiCall (analyze_request prompt), StError (''OpenAI API call failed: '' @ e)],
                JObj [])
           | Inr v \<Rightarrow> ([ApiCall (analyze_request prompt)], v)))"

text \<open>
  The sections shown under \<^verbatim>\<open>if result:\<close>, up to the bullet resume. The first
  \<^verbatim>\<open>result.get\<close> raises \<^verbatim>\<open>AttributeError\<close> when \<open>result\<close> is not a dict, after the
  first subheader has been written.
\<close>

definition analysis_sections :: "json \<Rightarrow> unit script" where
  "analysis_sections result =
     (case result of
        JObj d \<Rightarrow>
          run [emit (StSubheader ''Assessment''),
               emit (StWrite (dict_get d ''assessment'' (JStr []))),
               emit (StSubheader ''Strengths''),
               for_each (dict_get d ''strengths'' (JArr [])) (\<lambda>s. emit (StWriteBullet s)),
               emit (StSubheader ''Weaknesses''),
               for_each (dict_get d ''weaknesses'' (JArr [])) (\<lambda>w. emit (StWriteBullet w)),
               emit (StSubheader ''Rewritten Bullets''),
               for_each (dict_get d ''rewritten_bullets'' (JArr [])) (\<lambda>b. emit (StWriteBullet b)),
               emit (StSubheader ''Job Titles''),
               write_joined '', '' (dict_get d ''job_titles'' (JArr [])),
               emit (StSubheader ''Freelance Ideas''),
               for_each (dict_get d ''freelance_ideas'' (JArr [])) (\<lambda>f. emit (StWriteBullet f)),
               emit (StSubheader ''ATS Keywords''),
               write_joined '', '' (dict_get d ''keywords'' (JArr [])),
               emit (StSubheader ''Email Summary''),
               emit (StTextArea ''Professional Summary'' (dict_get d ''email_summary'' (JStr []))),
               (let bullet_resume = dict_get d ''bullet_resume'' (JStr [])
                in if truthy bullet_resume
                   then run [emit (StSubheader ''Professional Resume (Bullets)''),
                             emit (StTextArea ''Bullet Resume'' bullet_resume)]
                   else run [])]
      | _ \<Rightarrow> run [emit (StSubheader ''Assessment''), ([], Inl AttributeError)])"

text \<open>
  The rewritten resume and the save action. \<open>version_name\<close> is what the text input
  returns and \<open>save_clicked\<close> what the Save button returns.
\<close>

definition rewritten_section ::
  "json \<Rightarrow> string \<Rightarrow> bool \<Rightarrow> session_state \<Rightarrow> effect list \<times> session_state" where
  "rewritten_section result version_name save_clicked s =
     (case result of
        JObj d \<Rightarrow>
          (let rewritten_resume = dict_get d ''rewritten_resume'' (JStr [])
           in if truthy rewritten_resume then
                ([StSubheader ''Rewritten Resume (Full)'',
                  StTextArea ''Full Resume'' rewritten_resume,
                  StTextInput ''Label this resume version'' ''Version 1'',
                  StButton ''Save Resume Version'']
                 @ (if save_clicked
                    then [StSuccess (''Saved as '' @ [CHR 0x27] @ version_name @ [CHR 0x27])]
                    else []),
                 if save_clicked then save_version version_name rewritten_resume s else s)
              else ([], s))
      | _ \<Rightarrow> ([], s))"

text \<open>
  The whole handler: the effects, the exception that escaped it (if any) and the session
  state it leaves.
\<close>

definition analyze_handler ::
  "(request \<Rightarrow> outcome) \<Rightarrow> (string \<Rightarrow> string + json) \<Rightarrow> string \<Rightarrow> string \<Rightarrow> string \<Rightarrow>
   string \<Rightarrow> bool \<Rightarrow> session_state \<Rightarrow> effect list \<times> py_error option \<times> session_state" where
  "analyze_handler client loads text job_description user_question version_name save_clicked s =
     (let prompt = make_prompt text (Some job_description) (Some user_question) ''analyze'';
          (es0, result) = analyze_fetch client loads prompt
      in if truthy result then
           (case analysis_sections result of
              (es1, Inl x) \<Rightarrow> (es0 @ es1, Some x, s)
            | (es1, Inr u) \<Rightarrow>
                (case rewritten_section result version_name save_clicked s of
                   (es2, s') \<Rightarrow> (es0 @ es1 @ es2, None, s')))
         else (es0, None, s))"

section \<open>The free-text handlers\<close>

definition free_text_request :: "string \<Rightarrow> request" where
  "free_text_request prompt =
     \<lparr>model = ''gpt-3.5-turbo'', messages = [(''user'', prompt)],
      temperature = None, max_tokens = 512\<rparr>"

definition free_text_handler ::
  "(request \<Rightarrow> outcome) \<Rightarrow> string \<Rightarrow> string \<Rightarrow> string \<Rightarrow> effect list" where
  "free_text_handler client prompt subheader label =
     ApiCall (free_text_request prompt) #
     (case client (free_text_request prompt) of
        Ok text \<Rightarrow> [StSubheader subheader, StTextArea label (JStr text)]
      | Err e \<Rightarrow> [StError (''OpenAI API call failed: '' @ e)])"

definition cover_letter_handler :: "(request \<Rightarrow> outcome) \<Rightarrow> string \<Rightarrow> string \<Rightarrow> effect list" where
  "cover_letter_handler client text job_description =
     free_text_handler client (make_prompt text (Some job_description) None ''cover_letter'')
       ''Cover Letter'' ''Cover Letter''"

definition linkedin_handler :: "(request \<Rightarrow> outcome) \<Rightarrow> string \<Rightarrow> string \<Rightarrow> effect list" where
  "linkedin_handler client text job_description =
     free_text_handler client (make_prompt text (Some job_description) None ''linkedin'')
       ''LinkedIn Profile Suggestions'' ''LinkedIn Suggestions''"

definition interview_handler :: "(request \<Rightarrow> outcome) \<Rightarrow> string \<Rightarrow> string \<Rightarrow> effect list" where
  "interview_handler client text job_description =
     free_text_handler client (make_prompt text (Some job_description) None ''interview'')
       ''Interview Questions & Answers'' ''Interview Prep''"

section \<open>The chat section\<close>

text \<open>
  The chat call passes \<^verbatim>\<open>model\<close>, \<^verbatim>\<open>messages\<close> and \<^verbatim>\<open>max_tokens\<close> only, on a prompt
  built with \<^verbatim>\<open>mode="analyze"\<close>.
\<close>

definition chat_request :: "string \<Rightarrow> request" where
  "chat_request prompt =
     \<lparr>model = ''gpt-3.5-turbo'', messages = [(''user'', prompt)],
      temperature = None, max_tokens = 512\<rparr>"

text \<open>\<^verbatim>\<open>if "chat_history" not in st.session_state: st.session_state.chat_history = []\<close>\<close>

definition init_chat :: "session_state \<Rightarrow> session_state" where
  "init_chat s = (case chat_history s of None \<Rightarrow> s\<lparr>chat_history := Some []\<rparr> | Some h \<Rightarrow> s)"

definition append_turn :: "string \<Rightarrow> string \<Rightarrow> session_state \<Rightarrow> session_state" where
  "append_turn r c s =
     s\<lparr>chat_history :=
         Some ((case chat_history s of None \<Rightarrow> [] | Some h \<Rightarrow> h) @ [\<lparr>role = r, content = c\<rparr>])\<rparr>"

text \<open>The body of \<^verbatim>\<open>if user_input:\<close>, for a non-empty \<open>user_input\<close>.\<close>

definition chat_submit ::
  "(request \<Rightarrow> outcome) \<Rightarrow> string \<Rightarrow> string \<Rightarrow> string \<Rightarrow> session_state \<Rightarrow>
   effect list \<times> session_state" where
  "chat_submit client demo job_description user_input s =
     (let s1 = append_turn ''user'' user_input s;
          prompt = make_prompt demo (Some job_description) (Some user_input) ''analyze'';
          reply = (case client (chat_request prompt) of
                     Ok text \<Rightarrow> text
                   | Err e \<Rightarrow> ''Oops, something went wrong: '' @ e)
      in ([StChatMarkdown ''user'' user_input, ApiCall (chat_request prompt),
           StChatMarkdown ''assistant'' reply],
          append_turn ''assistant'' reply s1))"

text \<open>
  The chat section of the demo branch: \<open>user_input\<close> is what \<^verbatim>\<open>st.chat_input\<close> returned
  (\<open>None\<close> when nothing was submitted); the whole history is shown at the end.
\<close>

definition chat_section ::
  "(request \<Rightarrow> outcome) \<Rightarrow> string \<Rightarrow> string \<Rightarrow> string option \<Rightarrow> session_state \<Rightarrow>
   effect list \<times> session_state" where
  "chat_section client demo job_description user_input s =
     (let s0 = init_chat s;
          (es, s1) =
            (case user_input of
               None \<Rightarrow> ([], s0)
             | Some u \<Rightarrow> if u \<noteq> [] then chat_submit client demo job_description u s0 else ([], s0))
      in (StSubheader (''Ask Me Anything About Your Resume '' @
                       [CHR 0xF0, CHR 0x9F, CHR 0x97, CHR 0xA8, CHR 0xEF, CHR 0xB8, CHR 0x8F])
          # es
          @ map (\<lambda>msg. StChatMarkdown (role msg) (content msg))
              (case chat_history s1 of None \<Rightarrow> [] | Some h \<Rightarrow> h),
          s1))"

section \<open>Observers and test doubles\<close>

text \<open>The requests issued and the error messages shown within a list of effects.\<close>

fun api_calls :: "effect list \<Rightarrow> request list" where
  "api_calls [] = []"
| "api_calls (ApiCall r # es) = r # api_calls es"
| "api_calls (e # es) = api_calls es"

fun errors_shown :: "effect list \<Rightarrow> string list" where
  "errors_shown [] = []"
| "errors_shown (StError m # es) = m # errors_shown es"
| "errors_shown (e # es) = errors_shown es"


text \<open>
  Stand-ins for the two external parties in concrete runs: a client that answers every
  request with the same text, one that fails every request with the same message, and a
  parser given by the table of the texts it accepts, which rejects every other text with
  the message \<^verbatim>\<open>json.loads\<close> gives for a text that does not start a JSON value.
\<close>


definition client_ok :: "string \<Rightarrow> request \<Rightarrow> outcome" where
  "client_ok text r = Ok text"

definition client_err :: "string \<Rightarrow> request \<Rightarrow> outcome" where
  "client_err msg r = Err msg"

definition loads_table :: "(string \<times> json) list \<Rightarrow> string \<Rightarrow> string + json" where
  "loads_table table raw =
     (case map_of table raw of
        Some v \<Rightarrow> Inr v
      | None \<Rightarrow> Inl ''Expecting value: line 1 column 1 (char 0)'')"

section \<open>Properties of the scorer\<close>






lemma resume_score_shape:
  "\<exists>c k e. resume_score py_lower text =
       [(''Contact'', c), (''Skills'', k), (''Experience'', e), (''Total'', c + k + e)]
     \<and> (c = 0 \<or> c = 10) \<and> (k = 0 \<or> k = 10) \<and> (e = 0 \<or> e = 10)"
  by (simp add: resume_score_def Let_def)



text \<open>
  Claim C10. For every text each category score is 0 or 10, so the total is one of 0, 10,
  20, 30 and never exceeds 30, while the scorecard shows the total out of 100 and the
  categories out of 20, 20 and 25. This holds whatever \<^verbatim>\<open>str.lower\<close> returns.
\<close>

theorem resume_score_bounds:
  "\<exists>c k e. resume_score py_lower text =
       [(''Contact'', c), (''Skills'', k), (''Experience'', e), (''Total'', c + k + e)]
     \<and> c \<in> {0, 10} \<and> k \<in> {0, 10} \<and> e \<in> {0, 10}
     \<and> c + k + e \<in> {0, 10, 20, 30} \<and> c + k + e \<le> 30
     \<and> scorecard_metrics (resume_score py_lower text) =
         Inr [StMetric ''Total'' (str_int (c + k + e) @ ''/100''),
              StMetric ''Contact'' (str_int c @ ''/20''),
              StMetric ''Skills'' (str_int k @ ''/20''),
              StMetric ''Experience'' (str_int e @ ''/25'')]"
proof -
  obtain c k e where sh: "resume_score py_lower text =
       [(''Contact'', c), (''Skills'', k), (''Experience'', e), (''Total'', c + k + e)]"
    and c: "c = 0 \<or> c = 10" and k: "k = 0 \<or> k = 10" and e: "e = 0 \<or> e = 10"
    using resume_score_shape by blast
  have m: "scorecard_metrics (resume_score py_lower text) =
         Inr [StMetric ''Total'' (str_int (c + k + e) @ ''/100''),
              StMetric ''Contact'' (str_int c @ ''/20''),
              StMetric ''Skills'' (str_int k @ ''/20''),
              StMetric ''Experience'' (str_int e @ ''/25'')]"
    unfolding sh by (simp add: scorecard_metrics_def dict_item_def)
  have t: "c + k + e \<in> {0, 10, 20, 30}" "c + k + e \<le> 30"
    using c k e by auto
  show ?thesis
    using sh c k e m t by blast
qed

theorem resume_score_bounds_witness:
  "scorecard_metrics (resume_score ascii_lower ''Email, phone, SKILLS and Experience'') =
     Inr [StMetric ''Total'' ''30/100'', StMetric ''Contact'' ''10/20'',
          StMetric ''Skills'' ''10/20'', StMetric ''Experience'' ''10/25'']"
proof -
  have r: "resume_score ascii_lower ''Email, phone, SKILLS and Experience'' =
       [(''Contact'', 10), (''Skills'', 10), (''Experience'', 10), (''Total'', 30)]"
    by (simp add: resume_score_def ascii_lower_def lower_char_def)
  show ?thesis
    using resume_score_bounds [of ascii_lower "''Email, phone, SKILLS and Experience''"]
    unfolding r by (simp add: str_int_def)
qed

section \<open>Properties of the session state\<close>

lemma dict_set_keys:
  "map fst (dict_set d k v) = (if k \<in> set (map fst d) then map fst d else map fst d @ [k])"
  by (induction d) auto

lemma dict_set_lookup: "map_of (dict_set d k v) = (map_of d)(k \<mapsto> v)"
  by (induction d) (auto simp: fun_eq_iff)

lemma dict_set_distinct: "distinct (map fst d) \<Longrightarrow> distinct (map fst (dict_set d k v))"
  by (simp add: dict_set_keys)

lemma dict_set_twice: "dict_set (dict_set d k v1) k v2 = dict_set d k v2"
  by (induction d) auto

lemma distinct_key_count:
  "distinct (map fst d) \<Longrightarrow> k \<in> set (map fst d) \<Longrightarrow> length (filter (\<lambda>kv. fst kv = k) d) = 1"
  by (induction d) (auto simp: filter_empty_conv image_iff)

text \<open>
  Claim C7. Saving under a label and saving again under the same label leaves exactly one
  entry for that label, holding the second value: the versions are those of saving the
  second value alone. The keys of a dict are distinct, which every save preserves.
\<close>

theorem save_version_last_write_wins:
  assumes "distinct (map fst (versions s))"
  shows "dict_item (versions (save_version label text2 (save_version label text1 s))) label = Inr text2
       \<and> length (filter (\<lambda>kv. fst kv = label)
            (versions (save_version label text2 (save_version label text1 s)))) = 1
       \<and> versions (save_version label text2 (save_version label text1 s))
           = versions (save_version label text2 s)
       \<and> distinct (map fst (versions (save_version label text2 (save_version label text1 s))))"
proof -
  let ?d1 = "dict_set (versions s) label text1"
  let ?d2 = "dict_set ?d1 label text2"
  have v: "versions (save_version label text2 (save_version label text1 s)) = ?d2"
    by (simp add: save_version_def)
  have d2: "distinct (map fst ?d2)"
    using assms by (simp add: dict_set_distinct)
  have mem: "label \<in> set (map fst ?d2)"
    by (simp add: dict_set_keys)
  have cnt: "length (filter (\<lambda>kv. fst kv = label) ?d2) = 1"
    using d2 mem by (rule distinct_key_count)
  have look: "dict_item ?d2 label = Inr text2"
    by (simp add: dict_item_def dict_set_lookup)
  have same: "?d2 = dict_set (versions s) label text2"
    by (rule dict_set_twice)
  show ?thesis
    unfolding v using cnt look d2 same by (simp add: save_version_def)
qed

theorem save_version_last_write_wins_witness:
  "versions (save_version ''V1'' (JStr ''second'')
      (save_version ''V1'' (JStr ''first'') \<lparr>versions = [(''V0'', JStr ''old'')], chat_history = None\<rparr>))
    = [(''V0'', JStr ''old''), (''V1'', JStr ''second'')]
   \<and> length (filter (\<lambda>kv. fst kv = ''V1'')
        (versions (save_version ''V1'' (JStr ''second'')
          (save_version ''V1'' (JStr ''first'') \<lparr>versions = [(''V0'', JStr ''old'')], chat_history = None\<rparr>)))) = 1"
  using save_version_last_write_wins [of "\<lparr>versions = [(''V0'', JStr ''old'')], chat_history = None\<rparr>" "''V1''" "JStr ''second''" "JStr ''first''"]
  by (simp add: save_version_def)

text \<open>
  Claim C9. Clear Chat replaces the chat history by the empty list and leaves the saved
  versions as they were.
\<close>

theorem clear_chat_frame:
  "chat_history (clear_chat s) = Some [] \<and> versions (clear_chat s) = versions s"
  by (simp add: clear_chat_def)

text \<open>
  Claim C8. A chat submission whose generation call fails appends exactly two turns, the
  user's message and an assistant turn holding a non-empty error text; Clear Chat afterwards
  leaves an empty history.
\<close>

theorem chat_failure_appends_two_turns:
  assumes "client (chat_request (make_prompt demo (Some job_description) (Some user_input) ''analyze'')) = Err e"
    and "user_input \<noteq> []"
  shows "chat_history (snd (chat_section client demo job_description (Some user_input) s))
           = Some ((case chat_history s of None \<Rightarrow> [] | Some h \<Rightarrow> h)
                   @ [\<lparr>role = ''user'', content = user_input\<rparr>,
                      \<lparr>role = ''assistant'', content = ''Oops, something went wrong: '' @ e\<rparr>])
       \<and> ''Oops, something went wrong: '' @ e \<noteq> []
       \<and> versions (snd (chat_section client demo job_description (Some user_input) s)) = versions s
       \<and> chat_history (clear_chat (snd (chat_section client demo job_description (Some user_input) s)))
           = Some []"
  using assms
  by (cases "chat_history s")
     (simp_all add: chat_section_def chat_submit_def init_chat_def append_turn_def clear_chat_def
        Let_def)

theorem chat_failure_appends_two_turns_witness:
  "chat_history (snd (chat_section (client_err ''rate limit'') ''My resume'' [] (Some ''Any tips?'')
        new_session))
     = Some [\<lparr>role = ''user'', content = ''Any tips?''\<rparr>,
             \<lparr>role = ''assistant'', content = ''Oops, something went wrong: rate limit''\<rparr>]
   \<and> chat_history (clear_chat (snd (chat_section (client_err ''rate limit'') ''My resume'' []
        (Some ''Any tips?'') new_session))) = Some []"
  using chat_failure_appends_two_turns [of "client_err ''rate limit''" "''My resume''" "[]"
      "''Any tips?''" "''rate limit''" new_session]
  by (simp add: client_err_def new_session_def)

section \<open>Properties of the prompt builder\<close>

lemma blocks_suffix: "suffix r (a @ b @ c @ d @ l @ r)"
  unfolding suffix_def by (rule exI [of _ "a @ b @ c @ d @ l"]) simp

lemma jd_block_sublist: "sublist j (a @ b @ (h @ j @ t) @ rest)"
  unfolding sublist_def by (rule exI [of _ "a @ b @ h"], rule exI [of _ "t @ rest"]) simp

lemma uq_block_sublist: "sublist q (a @ b @ c @ (h @ q @ t) @ rest)"
  unfolding sublist_def by (rule exI [of _ "a @ b @ c @ h"], rule exI [of _ "t @ rest"]) simp

text \<open>
  Claim C5. For every resume text, optional job description, optional user question and
  mode, the prompt is the preamble, the mode instructions, the job description block (only
  when a non-empty one is supplied), the user question block (only when a non-empty one is
  supplied) and the labelled resume text, in this order; the resume text is its suffix, and
  a supplied job description or question occurs in it verbatim.
\<close>

theorem make_prompt_layout:
  "make_prompt resume_text job_description user_question mode =
       (''You are an expert career assistant. Mode: '' @ mode @
        ''.\<newline>Please keep your response as concise as possible.'')
       @ mode_instructions mode
       @ (case job_description of
            None \<Rightarrow> []
          | Some jd \<Rightarrow> if jd = [] then [] else ''Job Description:\<newline>'' @ jd @ ''\<newline>'')
       @ (case user_question of
            None \<Rightarrow> []
          | Some uq \<Rightarrow> if uq = [] then [] else ''User Question:\<newline>'' @ uq @ ''\<newline>'')
       @ ''Resume Text:\<newline>'' @ resume_text
   \<and> suffix resume_text (make_prompt resume_text job_description user_question mode)
   \<and> (case job_description of
         None \<Rightarrow> True
       | Some jd \<Rightarrow> sublist jd (make_prompt resume_text job_description user_question mode))
   \<and> (case user_question of
         None \<Rightarrow> True
       | Some uq \<Rightarrow> sublist uq (make_prompt resume_text job_description user_question mode))"
proof -
  define pre where "pre = ''You are an expert career assistant. Mode: '' @ mode @
        ''.\<newline>Please keep your response as concise as possible.''"
  define ins where "ins = mode_instructions mode"
  define jh where "jh = ''Job Description:\<newline>''"
  define qh where "qh = ''User Question:\<newline>''"
  define nl where "nl = ''\<newline>''"
  define lab where "lab = ''Resume Text:\<newline>''"
  define jb where "jb = (case job_description of
            None \<Rightarrow> [] | Some jd \<Rightarrow> if jd = [] then [] else jh @ jd @ nl)"
  define qb where "qb = (case user_question of
            None \<Rightarrow> [] | Some uq \<Rightarrow> if uq = [] then [] else qh @ uq @ nl)"
  let ?p = "make_prompt resume_text job_description user_question mode"
  have layout: "?p = pre @ ins @ jb @ qb @ lab @ resume_text"
    unfolding make_prompt_def Let_def pre_def ins_def jb_def qb_def jh_def qh_def nl_def lab_def
    by (simp split: option.splits)
  have suf: "suffix resume_text ?p"
    unfolding layout by (rule blocks_suffix)
  have jd: "case job_description of None \<Rightarrow> True | Some jd \<Rightarrow> sublist jd ?p"
  proof (cases job_description)
    case None
    then show ?thesis by simp
  next
    case (Some j)
    show ?thesis
    proof (cases "j = []")
      case True
      with Some show ?thesis by simp
    next
      case False
      have "jb = jh @ j @ nl"
        using Some False by (simp add: jb_def)
      then have "sublist j ?p"
        unfolding layout by (simp only: jd_block_sublist)
      with Some show ?thesis by simp
    qed
  qed
  have uq: "case user_question of None \<Rightarrow> True | Some uq \<Rightarrow> sublist uq ?p"
  proof (cases user_question)
    case None
    then show ?thesis by simp
  next
    case (Some q)
    show ?thesis
    proof (cases "q = []")
      case True
      with Some show ?thesis by simp
    next
      case False
      have "qb = qh @ q @ nl"
        using Some False by (simp add: qb_def)
      then have "sublist q ?p"
        unfolding layout by (simp only: uq_block_sublist)
      with Some show ?thesis by simp
    qed
  qed
  have l2: "?p =
       (''You are an expert career assistant. Mode: '' @ mode @
        ''.\<newline>Please keep your response as concise as possible.'')
       @ mode_instructions mode
       @ (case job_description of
            None \<Rightarrow> []
          | Some jd \<Rightarrow> if jd = [] then [] else ''Job Description:\<newline>'' @ jd @ ''\<newline>'')
       @ (case user_question of
            None \<Rightarrow> []
          | Some uq \<Rightarrow> if uq = [] then [] else ''User Question:\<newline>'' @ uq @ ''\<newline>'')
       @ ''Resume Text:\<newline>'' @ resume_text"
    using layout
    unfolding pre_def ins_def jb_def qb_def jh_def qh_def nl_def lab_def .
  from l2 suf jd uq show ?thesis
    by (intro conjI)
qed

theorem make_prompt_layout_witness:
  "make_prompt ''Jane Roe'' (Some ''Data analyst'') None ''cover_letter'' =
     ''You are an expert career assistant. Mode: cover_letter.\<newline>Please keep your response as concise as possible.Generate a tailored cover letter based on the resume and job description. Use a professional tone.\<newline>Job Description:\<newline>Data analyst\<newline>Resume Text:\<newline>Jane Roe''"
  using conjunct1 [OF make_prompt_layout [of "''Jane Roe''" "Some ''Data analyst''" None "''cover_letter''"]]
  by (simp add: mode_instructions_def)

section \<open>Properties of the handlers\<close>

lemma api_calls_append: "api_calls (xs @ ys) = api_calls xs @ api_calls ys"
  by (induction xs rule: api_calls.induct) simp_all

lemma errors_shown_append: "errors_shown (xs @ ys) = errors_shown xs @ errors_shown ys"
  by (induction xs rule: errors_shown.induct) simp_all

lemma run_quiet:
  assumes "\<And>m. m \<in> set ms \<Longrightarrow> api_calls (fst m) = [] \<and> errors_shown (fst m) = []"
  shows "api_calls (fst (run ms)) = [] \<and> errors_shown (fst (run ms)) = []"
  using assms
proof (induction ms)
  case Nil
  then show ?case by simp
next
  case (Cons m ms)
  have m: "api_calls (fst m) = [] \<and> errors_shown (fst m) = []"
    using Cons.prems by simp
  have r: "api_calls (fst (run ms)) = [] \<and> errors_shown (fst (run ms)) = []"
    using Cons by simp
  show ?case
    using m r
    by (cases m; cases "snd m"; cases "run ms")
       (auto simp: api_calls_append errors_shown_append)
qed

lemma for_each_quiet:
  assumes "\<And>x. api_calls (fst (body x)) = [] \<and> errors_shown (fst (body x)) = []"
  shows "api_calls (fst (for_each v body)) = [] \<and> errors_shown (fst (for_each v body)) = []"
proof (cases "py_iter v")
  case None
  then show ?thesis by (simp add: for_each_def)
next
  case (Some xs)
  have "api_calls (fst (run (map body xs))) = [] \<and> errors_shown (fst (run (map body xs))) = []"
    by (rule run_quiet) (use assms in auto)
  with Some show ?thesis by (simp add: for_each_def)
qed

lemma write_joined_quiet:
  "api_calls (fst (write_joined sep v)) = [] \<and> errors_shown (fst (write_joined sep v)) = []"
  by (simp add: write_joined_def emit_def split: sum.splits)

lemma analysis_sections_quiet:
  "api_calls (fst (analysis_sections v)) = [] \<and> errors_shown (fst (analysis_sections v)) = []"
proof (cases v)
  case (JObj d)
  have "api_calls (fst (analysis_sections (JObj d))) = []
      \<and> errors_shown (fst (analysis_sections (JObj d))) = []"
    unfolding analysis_sections_def json.case
    by (rule run_quiet)
       (auto simp: emit_def Let_def for_each_quiet write_joined_quiet)
  with JObj show ?thesis by simp
qed (simp_all add: analysis_sections_def emit_def)

lemma rewritten_section_quiet:
  "api_calls (fst (rewritten_section v n c s)) = []
   \<and> errors_shown (fst (rewritten_section v n c s)) = []"
  by (cases v) (simp_all add: rewritten_section_def Let_def)

lemma analyze_fetch_calls:
  "api_calls (fst (analyze_fetch client loads prompt)) = [analyze_request prompt]"
  by (simp add: analyze_fetch_def split: outcome.splits sum.splits)

lemma analyze_handler_calls:
  "api_calls (fst (analyze_handler client loads text jd uq vn sc s)) =
     [analyze_request (make_prompt text (Some jd) (Some uq) ''analyze'')]"
proof -
  let ?p = "make_prompt text (Some jd) (Some uq) ''analyze''"
  obtain es0 result where f: "analyze_fetch client loads ?p = (es0, result)"
    by (cases "analyze_fetch client loads ?p")
  have c0: "api_calls es0 = [analyze_request ?p]"
    using analyze_fetch_calls [of client loads ?p] f by simp
  obtain es1 r where a: "analysis_sections result = (es1, r)"
    by (cases "analysis_sections result")
  have c1: "api_calls es1 = []"
    using analysis_sections_quiet [of result] a by simp
  obtain es2 s' where w: "rewritten_section result vn sc s = (es2, s')"
    by (cases "rewritten_section result vn sc s")
  have c2: "api_calls es2 = []"
    using rewritten_section_quiet [of result vn sc s] w by simp
  show ?thesis
    using f a w c0 c1 c2
    by (cases r) (simp_all add: analyze_handler_def Let_def api_calls_append)
qed

text \<open>
  Claim C4, as stated, fails on the chat path: the chat submission builds its prompt in
  analyze mode, and its one request carries no temperature.
\<close>

theorem chat_temperature_counterexample:
  "api_calls (fst (chat_submit (client_ok ''Sure'') ''My resume'' [] ''Any tips?'' new_session))
     = [chat_request (make_prompt ''My resume'' (Some []) (Some ''Any tips?'') ''analyze'')]
   \<and> temperature (chat_request (make_prompt ''My resume'' (Some []) (Some ''Any tips?'') ''analyze''))
       \<noteq> Some (2 / 10)"
  by (simp add: chat_submit_def chat_request_def Let_def)

text \<open>
  Claim C4, amended. The Analyze and Rewrite handler issues exactly one request, with
  temperature 0.2; the chat submission and the cover letter, LinkedIn and interview handlers
  each issue exactly one request, with no temperature.
\<close>

theorem request_temperatures:
  "map temperature (api_calls (fst (analyze_handler client loads text job_description
       user_question version_name save_clicked s))) = [Some (2 / 10)]
   \<and> map temperature (api_calls (fst (chat_submit client demo job_description user_input s)))
       = [None]
   \<and> map temperature (api_calls (cover_letter_handler client text job_description)) = [None]
   \<and> map temperature (api_calls (linkedin_handler client text job_description)) = [None]
   \<and> map temperature (api_calls (interview_handler client text job_description)) = [None]"
proof -
  have ft: "\<And>p h l. map temperature (api_calls (free_text_handler client p h l)) = [None]"
    by (simp add: free_text_handler_def free_text_request_def split: outcome.splits)
  have a: "map temperature (api_calls (fst (analyze_handler client loads text job_description
       user_question version_name save_clicked s))) = [Some (2 / 10)]"
    by (simp add: analyze_handler_calls analyze_request_def)
  have c: "map temperature (api_calls (fst (chat_submit client demo job_description user_input s)))
       = [None]"
    by (simp add: chat_submit_def chat_request_def Let_def)
  show ?thesis
    using a c ft by (simp add: cover_letter_handler_def linkedin_handler_def interview_handler_def)
qed

theorem request_temperatures_witness:
  "map temperature (api_calls (fst (analyze_handler (client_err ''timeout'') (loads_table [])
       ''My resume'' [] [] ''Version 1'' False new_session))) = [Some (2 / 10)]
   \<and> map temperature (api_calls (cover_letter_handler (client_err ''timeout'') ''My resume'' []))
       = [None]"
  using request_temperatures [of "client_err ''timeout''" "loads_table []" "''My resume''" "[]" "[]"
      "''Version 1''" False new_session "[]" "[]"]
  by simp

text \<open>
  Claim C1, amended. For every returned text that \<^verbatim>\<open>json.loads\<close> rejects, the handler
  shows one error message, made of the fixed prefix and the parser's message, renders no
  analysis, raises nothing and leaves the session state unchanged; the returned text itself
  is neither shown nor kept.
\<close>

theorem analyze_parse_failure:
  assumes "client (analyze_request (make_prompt text (Some job_description) (Some user_question)
             ''analyze'')) = Ok raw"
    and "loads raw = Inl msg"
  shows "analyze_handler client loads text job_description user_question version_name
           save_clicked s =
         ([ApiCall (analyze_request (make_prompt text (Some job_description) (Some user_question)
             ''analyze'')),
           StError (''OpenAI API call failed: '' @ msg)], None, s)"
  using assms by (simp add: analyze_handler_def analyze_fetch_def Let_def)

theorem analyze_parse_failure_witness:
  "analyze_handler (client_ok ''Here is the analysis you asked for.'') (loads_table [])
       ''My resume'' [] [] ''Version 1'' False new_session =
     ([ApiCall (analyze_request (make_prompt ''My resume'' (Some []) (Some []) ''analyze'')),
       StError ''OpenAI API call failed: Expecting value: line 1 column 1 (char 0)''],
      None, new_session)"
  using analyze_parse_failure [of "client_ok ''Here is the analysis you asked for.''"
      "''My resume''" "[]" "[]" "''Here is the analysis you asked for.''" "loads_table []"
      "''Expecting value: line 1 column 1 (char 0)''" "''Version 1''" False new_session]
  by (simp add: client_ok_def loads_table_def)

text \<open>
  Claim C1, as stated, fails: for a reply wrapped in a markdown code fence the only message
  shown does not contain the reply, and the handler's whole outcome is the one it has for a
  different rejected reply.
\<close>

theorem raw_text_dropped_counterexample:
  "analyze_handler (client_ok ''```json\<newline>{}\<newline>```'') (loads_table [])
       ''My resume'' [] [] ''Version 1'' False new_session =
     ([ApiCall (analyze_request (make_prompt ''My resume'' (Some []) (Some []) ''analyze'')),
       StError ''OpenAI API call failed: Expecting value: line 1 column 1 (char 0)''],
      None, new_session)
   \<and> \<not> sublist ''```json\<newline>{}\<newline>```''
         ''OpenAI API call failed: Expecting value: line 1 column 1 (char 0)''
   \<and> analyze_handler (client_ok ''```json\<newline>{}\<newline>```'') (loads_table [])
       ''My resume'' [] [] ''Version 1'' False new_session =
     analyze_handler (client_ok ''Sorry, I cannot help.'') (loads_table [])
       ''My resume'' [] [] ''Version 1'' False new_session"
proof -
  have a: "\<not> sublist ''```json\<newline>{}\<newline>```''
         ''OpenAI API call failed: Expecting value: line 1 column 1 (char 0)''"
    by (simp add: sublist_code)
  have b: "\<And>raw. analyze_handler (client_ok raw) (loads_table [])
       ''My resume'' [] [] ''Version 1'' False new_session =
     ([ApiCall (analyze_request (make_prompt ''My resume'' (Some []) (Some []) ''analyze'')),
       StError ''OpenAI API call failed: Expecting value: line 1 column 1 (char 0)''],
      None, new_session)"
    by (simp add: analyze_handler_def analyze_fetch_def client_ok_def loads_table_def Let_def)
  show ?thesis
    using a by (simp only: b simp_thms)
qed

text \<open>
  Claim C3 at failing inputs. A reply that parses to a non-empty JSON array makes
  \<^verbatim>\<open>result.get\<close> raise \<^verbatim>\<open>AttributeError\<close> outside the \<^verbatim>\<open>try\<close> block; a reply that parses to
  the empty array produces neither a section nor a message; an object whose
  \<^verbatim>\<open>strengths\<close> is a number raises \<^verbatim>\<open>TypeError\<close> in the loop, with no message shown.
\<close>

theorem analyze_non_object_escapes:
  "analyze_handler (client_ok ''[1]'') (loads_table [(''[1]'', JArr [JInt 1])])
       text job_description user_question version_name save_clicked s =
     ([ApiCall (analyze_request (make_prompt text (Some job_description) (Some user_question)
          ''analyze'')),
       StSubheader ''Assessment''], Some AttributeError, s)
   \<and> analyze_handler (client_ok ''[]'') (loads_table [(''[]'', JArr [])])
       text job_description user_question version_name save_clicked s =
     ([ApiCall (analyze_request (make_prompt text (Some job_description) (Some user_question)
          ''analyze''))], None, s)
   \<and> fst (snd (analyze_handler (client_ok ''{\"strengths\": 5}'')
         (loads_table [(''{\"strengths\": 5}'', JObj [(''strengths'', JInt 5)])])
         text job_description user_question version_name save_clicked s)) = Some TypeError
   \<and> errors_shown (fst (analyze_handler (client_ok ''{\"strengths\": 5}'')
         (loads_table [(''{\"strengths\": 5}'', JObj [(''strengths'', JInt 5)])])
         text job_description user_question version_name save_clicked s)) = []"
  by (simp add: analyze_handler_def analyze_fetch_def client_ok_def loads_table_def Let_def
       analysis_sections_def emit_def for_each_def dict_get_def)


lemma run_done: "run (([], Inr ()) # ms) = run ms"
  by (simp split: prod.splits)









end
